theory Spec2Isabelle
  imports Complex_Main "HOL-Library.Stream"
begin

section \<open>Vector and ray algebra of \<^verbatim>\<open>vector.h\<close>\<close>

text \<open>
  The header declares \<^verbatim>\<open>template<typename T = double> struct Vec3\<close>. The template
  parameter \<^verbatim>\<open>T\<close> is the type variable \<open>'a\<close>; every place where the source
  writes \<^verbatim>\<open>double\<close> (and \<^verbatim>\<open>Vec3<>\<close>, that is \<^verbatim>\<open>Vec3<double>\<close>) is
  modelled over \<open>real\<close>: arithmetic is exact, so rounding, overflow, infinities and
  NaN are outside the model. Members whose result type is \<^verbatim>\<open>double\<close>
  (\<^verbatim>\<open>sum\<close>, \<^verbatim>\<open>squared_length\<close>) and the free function \<^verbatim>\<open>dot\<close> are
  modelled at the default instantiation \<^verbatim>\<open>T = double\<close>. Every property below
  either transcribes the expression the source evaluates or is a closed instance whose
  values a \<^verbatim>\<open>double\<close> computes without rounding.

  Left out is what has no counterpart in exact arithmetic. The members that divide
  (\<^verbatim>\<open>normalize\<close>, \<^verbatim>\<open>normalized\<close>, \<^verbatim>\<open>operator/\<close>): division by zero is \<open>0\<close>
  in a HOL field and an infinity or NaN for a \<^verbatim>\<open>double\<close>. And \<^verbatim>\<open>length\<close> with
  \<^verbatim>\<open>reflect\<close>: that a reflection keeps the length rests on a ring identity which
  holds for reals and, because of rounding and overflow, not for a \<^verbatim>\<open>double\<close>.
\<close>

subsection \<open>\<^verbatim>\<open>struct Vec3\<close>\<close>

record 'a Vec3 =
  x :: 'a
  y :: 'a
  z :: 'a

text \<open>The three constructors: \<^verbatim>\<open>Vec3()\<close>, \<^verbatim>\<open>Vec3(T value)\<close>, \<^verbatim>\<open>Vec3(T x, T y, T z)\<close>.\<close>

definition Vec3_default :: "'a::zero Vec3" where
  "Vec3_default = \<lparr>x = 0, y = 0, z = 0\<rparr>"

definition Vec3_value :: "'a \<Rightarrow> 'a Vec3" where
  "Vec3_value v = \<lparr>x = v, y = v, z = v\<rparr>"

definition Vec3_xyz :: "'a \<Rightarrow> 'a \<Rightarrow> 'a \<Rightarrow> 'a Vec3" where
  "Vec3_xyz a b c = \<lparr>x = a, y = b, z = c\<rparr>"

text \<open>\<^verbatim>\<open>operator-()\<close>\<close>

definition operator_neg :: "'a::uminus Vec3 \<Rightarrow> 'a Vec3" where
  "operator_neg v = \<lparr>x = - x v, y = - y v, z = - z v\<rparr>"

text \<open>
  \<^verbatim>\<open>operator[](size_t i)\<close>: a \<^verbatim>\<open>switch\<close> over the unsigned index with the cases
  0, 1, 2 and a \<^verbatim>\<open>default\<close> that returns the value-initialised \<^verbatim>\<open>T{}\<close>, which
  is zero for an arithmetic type.
\<close>

definition operator_index :: "'a::zero Vec3 \<Rightarrow> nat \<Rightarrow> 'a" where
  "operator_index v i =
     (if i = 0 then x v
      else if i = 1 then y v
      else if i = 2 then z v
      else 0)"

text \<open>Element wide operators \<^verbatim>\<open>operator==(T rhs)\<close> and \<^verbatim>\<open>operator<=(T rhs)\<close>.\<close>

definition operator_eq :: "'a Vec3 \<Rightarrow> 'a \<Rightarrow> bool" where
  "operator_eq v rhs \<longleftrightarrow> x v = rhs \<and> y v = rhs \<and> z v = rhs"

definition operator_le :: "'a::ord Vec3 \<Rightarrow> 'a \<Rightarrow> bool" where
  "operator_le v rhs \<longleftrightarrow> x v \<le> rhs \<and> y v \<le> rhs \<and> z v \<le> rhs"

text \<open>\<^verbatim>\<open>sum\<close> and \<^verbatim>\<open>squared_length\<close>, both returning \<^verbatim>\<open>double\<close>.\<close>

definition sum_Vec3 :: "real Vec3 \<Rightarrow> real" where
  "sum_Vec3 v = x v + y v + z v"

definition squared_length :: "real Vec3 \<Rightarrow> real" where
  "squared_length v = x v * x v + y v * y v + z v * z v"

subsection \<open>Free operators on \<^verbatim>\<open>Vec3\<close>\<close>

text \<open>\<^verbatim>\<open>operator*(const Vec3<T>& v, double r)\<close> and \<^verbatim>\<open>operator*(double l, const Vec3<T>& v)\<close>.\<close>

definition operator_mul_r :: "real Vec3 \<Rightarrow> real \<Rightarrow> real Vec3" where
  "operator_mul_r v r = \<lparr>x = x v * r, y = y v * r, z = z v * r\<rparr>"

definition operator_mul_l :: "real \<Rightarrow> real Vec3 \<Rightarrow> real Vec3" where
  "operator_mul_l l v = \<lparr>x = x v * l, y = y v * l, z = z v * l\<rparr>"

text \<open>\<^verbatim>\<open>operator*(const Vec3<T>& l, const Vec3<T>& r)\<close>\<close>

definition operator_mul :: "'a::times Vec3 \<Rightarrow> 'a Vec3 \<Rightarrow> 'a Vec3" where
  "operator_mul l r = \<lparr>x = x l * x r, y = y l * y r, z = z l * z r\<rparr>"

text \<open>\<^verbatim>\<open>operator+(const Vec3<T>& l, const Vec3<T>& r)\<close> and \<^verbatim>\<open>operator+(const Vec3<T>& l, T r)\<close>.\<close>

definition operator_add :: "'a::plus Vec3 \<Rightarrow> 'a Vec3 \<Rightarrow> 'a Vec3" where
  "operator_add l r = \<lparr>x = x l + x r, y = y l + y r, z = z l + z r\<rparr>"

definition operator_add_scalar :: "'a::plus Vec3 \<Rightarrow> 'a \<Rightarrow> 'a Vec3" where
  "operator_add_scalar l r = \<lparr>x = x l + r, y = y l + r, z = z l + r\<rparr>"

text \<open>\<^verbatim>\<open>operator-(const Vec3<T>& l, const Vec3<T>& r)\<close>\<close>

definition operator_sub :: "'a::minus Vec3 \<Rightarrow> 'a Vec3 \<Rightarrow> 'a Vec3" where
  "operator_sub l r = \<lparr>x = x l - x r, y = y l - y r, z = z l - z r\<rparr>"

text \<open>\<^verbatim>\<open>dot\<close> (result type \<^verbatim>\<open>double\<close>) and \<^verbatim>\<open>cross\<close>.\<close>

definition dot :: "real Vec3 \<Rightarrow> real Vec3 \<Rightarrow> real" where
  "dot l r = x l * x r + y l * y r + z l * z r"

definition cross :: "'a::{times,minus,uminus} Vec3 \<Rightarrow> 'a Vec3 \<Rightarrow> 'a Vec3" where
  "cross l r =
     \<lparr>x = y l * z r - z l * y r,
      y = - (x l * z r - z l * x r),
      z = x l * y r - y l * x r\<rparr>"

subsection \<open>\<^verbatim>\<open>struct Ray\<close>\<close>

record Ray =
  A :: "real Vec3"
  B :: "real Vec3"

text \<open>
  \<^verbatim>\<open>Ray() = default\<close> default-initialises both members; \<^verbatim>\<open>Vec3\<close> has a
  user-provided zero-argument constructor, so each member is built by \<^verbatim>\<open>Vec3()\<close>.
  \<^verbatim>\<open>Ray(Vec3<> a, Vec3<> b)\<close> stores its arguments.
\<close>

definition Ray_default :: Ray where
  "Ray_default = \<lparr>A = Vec3_default, B = Vec3_default\<rparr>"

definition Ray_ab :: "real Vec3 \<Rightarrow> real Vec3 \<Rightarrow> Ray" where
  "Ray_ab a b = \<lparr>A = a, B = b\<rparr>"

text \<open>\<^verbatim>\<open>operator()(double t)\<close>, \<^verbatim>\<open>origin()\<close> and \<^verbatim>\<open>direction()\<close>.\<close>

definition operator_call :: "Ray \<Rightarrow> real \<Rightarrow> real Vec3" where
  "operator_call r t = operator_add (A r) (operator_mul_l t (B r))"

definition origin :: "Ray \<Rightarrow> real Vec3" where
  "origin r = A r"

definition direction :: "Ray \<Rightarrow> real Vec3" where
  "direction r = B r"

subsection \<open>Rejection sampling\<close>

text \<open>
  \<^verbatim>\<open>drand48()\<close> is the C library's generator: every call returns the next value of
  a process-wide sequence. The sequence is the explicit state, a stream of reals; a call
  returns its head and leaves the tail.
\<close>

definition drand48 :: "real stream \<Rightarrow> real \<times> real stream" where
  "drand48 g = (shd g, stl g)"

text \<open>
  \<^verbatim>\<open>random_in_unit_sphere\<close>: a \<^verbatim>\<open>do ... while (p.squared_length() >= 1.0)\<close> loop
  with no bound on the number of rounds. The local \<^verbatim>\<open>p\<close> is overwritten in every
  round before it is read, so the loop state is the generator alone. The three calls of
  \<^verbatim>\<open>drand48()\<close> stand in a braced initialiser list and are evaluated left to right.
  The result is the returned vector with the generator as the call leaves it; \<open>None\<close>
  is the loop that never ends.
\<close>

partial_function (option) random_in_unit_sphere ::
    "real stream \<Rightarrow> (real Vec3 \<times> real stream) option" where
  "random_in_unit_sphere g =
     (case drand48 g of (r1, g1) \<Rightarrow>
      case drand48 g1 of (r2, g2) \<Rightarrow>
      case drand48 g2 of (r3, g3) \<Rightarrow>
        let p = operator_sub (operator_mul_l 2 (Vec3_xyz r1 r2 r3)) (Vec3_value 1)
        in if squared_length p \<ge> 1 then random_in_unit_sphere g3 else Some (p, g3))"

text \<open>
  The \<open>k\<close>-th candidate of a stream, in the words of the specification: the \<open>k\<close>-th
  triple \<open>(r1, r2, r3)\<close> of consecutive values mapped to \<open>2\<cdot>(r1, r2, r3) - (1, 1, 1)\<close>.
\<close>

definition candidate :: "real stream \<Rightarrow> nat \<Rightarrow> real Vec3" where
  "candidate g k =
     \<lparr>x = 2 * (g !! (3 * k)) - 1,
      y = 2 * (g !! (3 * k + 1)) - 1,
      z = 2 * (g !! (3 * k + 2)) - 1\<rparr>"

section \<open>Properties\<close>

text \<open>
  C1. Indexed read access of a vector returns the \<open>x\<close> component at index 0, the
  \<open>y\<close> component at index 1, the \<open>z\<close> component at index 2 and the zero of the
  component type at every other index; the function is total, so no index fails.
  For the vector (1,2,3) the indices 0, 1, 2, 3 give 1, 2, 3, 0.
\<close>

theorem operator_index_components:
  "operator_index v 0 = x v \<and>
   operator_index v 1 = y v \<and>
   operator_index v 2 = z v \<and>
   (\<forall>i. 2 < i \<longrightarrow> operator_index v i = 0) \<and>
   operator_index (Vec3_xyz 1 2 3 :: real Vec3) 0 = 1 \<and>
   operator_index (Vec3_xyz 1 2 3 :: real Vec3) 1 = 2 \<and>
   operator_index (Vec3_xyz 1 2 3 :: real Vec3) 2 = 3 \<and>
   operator_index (Vec3_xyz 1 2 3 :: real Vec3) 3 = 0"
  by (simp add: operator_index_def Vec3_xyz_def)

theorem operator_index_components_witness:
  "(2::nat) < 7 \<and> operator_index (Vec3_xyz 4 5 6 :: real Vec3) 7 = 0"
proof -
  have "\<forall>i. 2 < i \<longrightarrow> operator_index (Vec3_xyz 4 5 6 :: real Vec3) i = 0"
    using operator_index_components [of "Vec3_xyz 4 5 6 :: real Vec3"] by blast
  then show ?thesis by simp
qed

text \<open>
  C2. Comparing a vector with a scalar is a conjunction over the three components:
  \<open>v == s\<close> holds exactly when \<open>x\<close>, \<open>y\<close> and \<open>z\<close> all equal \<open>s\<close>, and
  \<open>v <= s\<close> holds exactly when all three are at most \<open>s\<close>. So (2,2,2) \<open><=\<close> 2
  holds and (2,3,2) \<open><=\<close> 2 does not, although two of its components are at most 2.
\<close>

theorem operator_eq_le_all_components:
  "(operator_eq v s \<longleftrightarrow> x v = s \<and> y v = s \<and> z v = s) \<and>
   (operator_le v s \<longleftrightarrow> x v \<le> s \<and> y v \<le> s \<and> z v \<le> s) \<and>
   operator_le (Vec3_xyz 2 2 2 :: real Vec3) 2 \<and>
   \<not> operator_le (Vec3_xyz 2 3 2 :: real Vec3) 2"
  by (simp add: operator_eq_def operator_le_def Vec3_xyz_def)

subsection \<open>Rejection sampling returns the first accepted candidate\<close>

lemma sdrop_3:
  "sdrop 3 g = stl (stl (stl g))"
  by (simp add: eval_nat_numeral)

text \<open>The first candidate is the vector the loop body builds from three draws.\<close>

lemma candidate_0:
  "candidate g 0 =
     operator_sub
       (operator_mul_l 2 (Vec3_xyz (shd g) (shd (stl g)) (shd (stl (stl g)))))
       (Vec3_value 1)"
  by (simp add: candidate_def operator_sub_def operator_mul_l_def Vec3_xyz_def Vec3_value_def
      eval_nat_numeral)

text \<open>One round of the loop: three values are consumed, then the test decides.\<close>

lemma random_in_unit_sphere_unfold:
  "random_in_unit_sphere g =
     (if squared_length (candidate g 0) \<ge> 1 then random_in_unit_sphere (sdrop 3 g)
      else Some (candidate g 0, sdrop 3 g))"
  by (subst random_in_unit_sphere.simps) (simp add: drand48_def candidate_0 sdrop_3 Let_def)

text \<open>Dropping one triple shifts the numbering of the candidates by one.\<close>

lemma candidate_sdrop:
  "candidate (sdrop 3 g) j = candidate g (Suc j)"
  by (simp add: candidate_def sdrop_snth add.commute add.left_commute)

text \<open>
  Termination: after \<open>k\<close> rejected candidates the loop is still running, and it
  returns as soon as a candidate is accepted. Induction on the number of rejections.
\<close>

lemma random_in_unit_sphere_returns:
  assumes "\<forall>j<k. 1 \<le> squared_length (candidate g j)"
    and "squared_length (candidate g k) < 1"
  shows "random_in_unit_sphere g = Some (candidate g k, sdrop (3 * Suc k) g)"
  using assms
proof (induction k arbitrary: g)
  case 0
  then show ?case by (subst random_in_unit_sphere_unfold) simp
next
  case (Suc k)
  have rej0: "1 \<le> squared_length (candidate g 0)" using Suc.prems(1) by blast
  have "random_in_unit_sphere (sdrop 3 g) =
          Some (candidate (sdrop 3 g) k, sdrop (3 * Suc k) (sdrop 3 g))"
  proof (rule Suc.IH)
    show "\<forall>j<k. 1 \<le> squared_length (candidate (sdrop 3 g) j)"
      using Suc.prems(1) by (simp add: candidate_sdrop)
    show "squared_length (candidate (sdrop 3 g) k) < 1"
      using Suc.prems(2) by (simp add: candidate_sdrop)
  qed
  moreover have "sdrop (3 * Suc k) (sdrop 3 g) = sdrop (3 * Suc (Suc k)) g"
    by (simp add: sdrop_add)
  ultimately show ?case
    using rej0 by (subst random_in_unit_sphere_unfold) (simp add: candidate_sdrop)
qed

text \<open>
  Partial correctness: whatever the call returns is the first accepted candidate. The
  function is a least fixed point, so the proof is by its fixed-point induction rule.
\<close>

lemma random_in_unit_sphere_sound:
  assumes ret: "random_in_unit_sphere g = Some out"
  shows "\<exists>k. (\<forall>j<k. 1 \<le> squared_length (candidate g j)) \<and>
             squared_length (candidate g k) < 1 \<and>
             out = (candidate g k, sdrop (3 * Suc k) g)"
proof (rule random_in_unit_sphere.raw_induct
    [where P = "\<lambda>g out. \<exists>k. (\<forall>j<k. 1 \<le> squared_length (candidate g j)) \<and>
       squared_length (candidate g k) < 1 \<and> out = (candidate g k, sdrop (3 * Suc k) g)",
     OF _ ret])
  fix f :: "real stream \<Rightarrow> (real Vec3 \<times> real stream) option" and g out
  assume IH: "\<And>h r. f h = Some r \<Longrightarrow>
      \<exists>k. (\<forall>j<k. 1 \<le> squared_length (candidate h j)) \<and>
        squared_length (candidate h k) < 1 \<and> r = (candidate h k, sdrop (3 * Suc k) h)"
  assume "(case drand48 g of (r1, g1) \<Rightarrow>
      case drand48 g1 of (r2, g2) \<Rightarrow>
      case drand48 g2 of (r3, g3) \<Rightarrow>
        let p = operator_sub (operator_mul_l 2 (Vec3_xyz r1 r2 r3)) (Vec3_value 1)
        in if 1 \<le> squared_length p then f g3 else Some (p, g3)) = Some out"
  then have body:
    "(if 1 \<le> squared_length (candidate g 0) then f (sdrop 3 g)
      else Some (candidate g 0, sdrop 3 g)) = Some out"
    by (simp add: drand48_def candidate_0 sdrop_3 Let_def split: if_splits)
  show "\<exists>k. (\<forall>j<k. 1 \<le> squared_length (candidate g j)) \<and>
       squared_length (candidate g k) < 1 \<and> out = (candidate g k, sdrop (3 * Suc k) g)"
  proof (cases "1 \<le> squared_length (candidate g 0)")
    case False
    with body have "out = (candidate g 0, sdrop (3 * Suc 0) g)" by simp
    with False show ?thesis by (intro exI [of _ 0]) simp
  next
    case True
    with body have "f (sdrop 3 g) = Some out" by simp
    then obtain k where
      rej: "\<forall>j<k. 1 \<le> squared_length (candidate (sdrop 3 g) j)" and
      acc: "squared_length (candidate (sdrop 3 g) k) < 1" and
      res: "out = (candidate (sdrop 3 g) k, sdrop (3 * Suc k) (sdrop 3 g))"
      using IH by blast
    have "\<forall>j<Suc k. 1 \<le> squared_length (candidate g j)"
    proof (intro allI impI)
      fix j assume "j < Suc k"
      then show "1 \<le> squared_length (candidate g j)"
        using True rej by (cases j) (simp_all add: candidate_sdrop)
    qed
    moreover have "squared_length (candidate g (Suc k)) < 1"
      using acc by (simp add: candidate_sdrop)
    moreover have "out = (candidate g (Suc k), sdrop (3 * Suc (Suc k)) g)"
      using res by (simp add: candidate_sdrop sdrop_add)
    ultimately show ?thesis by blast
  qed
qed

text \<open>
  C3. With the random source a stream, \<^verbatim>\<open>random_in_unit_sphere\<close> returns a vector
  \<open>p\<close> and leaves the generator \<open>g'\<close> exactly when \<open>p\<close> is the first candidate
  \<open>2\<cdot>(r1, r2, r3) - (1, 1, 1)\<close> of consecutive triples whose squared length is below 1
  and \<open>g'\<close> is the stream after that triple: every earlier candidate was rejected, and
  no number of rejections stops the loop. Every returned vector has squared length
  below 1, and on a stream with no acceptable candidate the call never returns. This
  holds for every stream of reals, those with all values in \<open>[0, 1)\<close> among them.
\<close>

theorem random_in_unit_sphere_first_accepted:
  "(random_in_unit_sphere g = Some (p, g') \<longleftrightarrow>
      (\<exists>k. (\<forall>j<k. 1 \<le> squared_length (candidate g j)) \<and>
           squared_length (candidate g k) < 1 \<and>
           p = candidate g k \<and> g' = sdrop (3 * Suc k) g)) \<and>
   (random_in_unit_sphere g = Some (p, g') \<longrightarrow> squared_length p < 1) \<and>
   ((\<forall>k. 1 \<le> squared_length (candidate g k)) \<longrightarrow> random_in_unit_sphere g = None)"
proof (intro conjI)
  show iff: "random_in_unit_sphere g = Some (p, g') \<longleftrightarrow>
      (\<exists>k. (\<forall>j<k. 1 \<le> squared_length (candidate g j)) \<and>
           squared_length (candidate g k) < 1 \<and>
           p = candidate g k \<and> g' = sdrop (3 * Suc k) g)"
  proof
    assume "random_in_unit_sphere g = Some (p, g')"
    from random_in_unit_sphere_sound [OF this]
    show "\<exists>k. (\<forall>j<k. 1 \<le> squared_length (candidate g j)) \<and>
           squared_length (candidate g k) < 1 \<and>
           p = candidate g k \<and> g' = sdrop (3 * Suc k) g"
      by simp
  next
    assume "\<exists>k. (\<forall>j<k. 1 \<le> squared_length (candidate g j)) \<and>
           squared_length (candidate g k) < 1 \<and>
           p = candidate g k \<and> g' = sdrop (3 * Suc k) g"
    then obtain k where "\<forall>j<k. 1 \<le> squared_length (candidate g j)"
      "squared_length (candidate g k) < 1" "p = candidate g k" "g' = sdrop (3 * Suc k) g"
      by blast
    then show "random_in_unit_sphere g = Some (p, g')"
      using random_in_unit_sphere_returns [of k g] by simp
  qed
  show "random_in_unit_sphere g = Some (p, g') \<longrightarrow> squared_length p < 1"
    using iff by blast
  show "(\<forall>k. 1 \<le> squared_length (candidate g k)) \<longrightarrow> random_in_unit_sphere g = None"
  proof
    assume never: "\<forall>k. 1 \<le> squared_length (candidate g k)"
    show "random_in_unit_sphere g = None"
    proof (cases "random_in_unit_sphere g")
      case None
      then show ?thesis .
    next
      case (Some out)
      from random_in_unit_sphere_sound [OF this] obtain k
        where "squared_length (candidate g k) < 1" by blast
      with never have False by (simp add: not_less [symmetric])
      then show ?thesis ..
    qed
  qed
qed

theorem random_in_unit_sphere_first_accepted_witness:
  "random_in_unit_sphere (0 ## 0 ## 0 ## 0 ## 0 ## 1/2 ## 3/4 ## 1/2 ## 1/4 ## sconst (1/2)) =
     Some (Vec3_xyz (1/2) 0 (- 1/2), sconst (1/2)) \<and>
   squared_length (Vec3_xyz (1/2) 0 (- 1/2)) < 1"
proof -
  let ?g = "0 ## 0 ## 0 ## 0 ## 0 ## 1/2 ## 3/4 ## 1/2 ## 1/4 ## sconst (1/2 :: real)"
  let ?p = "Vec3_xyz (1/2) 0 (- 1/2) :: real Vec3"
  have c0: "candidate ?g 0 = Vec3_xyz (- 1) (- 1) (- 1)"
    by (simp add: candidate_def Vec3_xyz_def)
  have c1: "candidate ?g 1 = Vec3_xyz (- 1) (- 1) 0"
    by (simp add: candidate_def Vec3_xyz_def eval_nat_numeral)
  have c2: "candidate ?g 2 = ?p"
    by (simp add: candidate_def Vec3_xyz_def eval_nat_numeral)
  have dr: "sdrop (3 * Suc 2) ?g = sconst (1/2)"
    by (simp add: eval_nat_numeral)
  have rej: "\<forall>j<2. 1 \<le> squared_length (candidate ?g j)"
  proof (intro allI impI)
    fix j :: nat assume "j < 2"
    then have "j = 0 \<or> j = 1" by auto
    then show "1 \<le> squared_length (candidate ?g j)"
      using c0 c1 by (auto simp: squared_length_def Vec3_xyz_def)
  qed
  have acc: "squared_length (candidate ?g 2) < 1"
    by (simp add: c2 squared_length_def Vec3_xyz_def)
  have first: "\<exists>k. (\<forall>j<k. 1 \<le> squared_length (candidate ?g j)) \<and>
           squared_length (candidate ?g k) < 1 \<and>
           ?p = candidate ?g k \<and> sconst (1/2) = sdrop (3 * Suc k) ?g"
    using rej acc c2 dr by (intro exI [of _ 2]) simp
  note spec = random_in_unit_sphere_first_accepted [of ?g ?p "sconst (1/2)"]
  have ret: "random_in_unit_sphere ?g = Some (?p, sconst (1/2))"
    by (rule iffD2 [OF conjunct1 [OF spec] first])
  moreover have "squared_length ?p < 1"
    using spec ret by blast
  ultimately show ?thesis by blast
qed

text \<open>
  C5. The cross product is \<open>(l.y\<cdot>r.z - l.z\<cdot>r.y, -(l.x\<cdot>r.z - l.z\<cdot>r.x), l.x\<cdot>r.y - l.y\<cdot>r.x)\<close>,
  the middle component being the negated difference as the source writes it. For
  instance (1,0,0) \<open>\<times>\<close> (0,0,1) is (0,-1,0) and (1,2,3) \<open>\<times>\<close> (4,5,6) is (-3,6,-3).
\<close>

theorem cross_components:
  "cross l r =
     \<lparr>x = y l * z r - z l * y r,
      y = - (x l * z r - z l * x r),
      z = x l * y r - y l * x r\<rparr> \<and>
   cross (Vec3_xyz 1 0 0) (Vec3_xyz 0 0 1 :: real Vec3) = Vec3_xyz 0 (- 1) 0 \<and>
   cross (Vec3_xyz 1 2 3) (Vec3_xyz 4 5 6 :: real Vec3) = Vec3_xyz (- 3) 6 (- 3)"
  by (simp add: cross_def Vec3_xyz_def)

text \<open>
  C6. The product of two vectors is componentwise, \<open>(l.x\<cdot>r.x, l.y\<cdot>r.y, l.z\<cdot>r.z)\<close>,
  whereas \<^verbatim>\<open>dot\<close> is the sum \<open>l.x\<cdot>r.x + l.y\<cdot>r.y + l.z\<cdot>r.z\<close>:
  (1,2,3) \<open>*\<close> (2,2,2) is the vector (2,4,6), and the dot product of the two is 12.
\<close>

theorem operator_mul_componentwise:
  "operator_mul l r = \<lparr>x = x l * x r, y = y l * y r, z = z l * z r\<rparr> \<and>
   dot l r = x l * x r + y l * y r + z l * z r \<and>
   operator_mul (Vec3_xyz 1 2 3) (Vec3_xyz 2 2 2 :: real Vec3) = Vec3_xyz 2 4 6 \<and>
   dot (Vec3_xyz 1 2 3) (Vec3_xyz 2 2 2) = 12"
  by (simp add: operator_mul_def dot_def Vec3_xyz_def)

text \<open>
  C7. Evaluating a ray with origin \<open>A\<close> and direction \<open>B\<close> at any real parameter
  \<open>t\<close>, negative ones included, gives \<open>A + t\<cdot>B\<close>. The ray from (0,0,0) along (1,0,0)
  is at (0,0,0) for \<open>t = 0\<close>, at (5,0,0) for \<open>t = 5\<close> and at (-2,0,0) for \<open>t = -2\<close>.
\<close>

theorem operator_call_point:
  "operator_call r t =
     \<lparr>x = x (A r) + t * x (B r), y = y (A r) + t * y (B r), z = z (A r) + t * z (B r)\<rparr> \<and>
   operator_call (Ray_ab (Vec3_xyz 0 0 0) (Vec3_xyz 1 0 0)) 0 = Vec3_xyz 0 0 0 \<and>
   operator_call (Ray_ab (Vec3_xyz 0 0 0) (Vec3_xyz 1 0 0)) 5 = Vec3_xyz 5 0 0 \<and>
   operator_call (Ray_ab (Vec3_xyz 0 0 0) (Vec3_xyz 1 0 0)) (- 2) = Vec3_xyz (- 2) 0 0"
  by (simp add: operator_call_def operator_add_def operator_mul_l_def Ray_ab_def Vec3_xyz_def
      mult.commute)

text \<open>
  C9. A default-constructed ray has origin (0,0,0) and direction (0,0,0): both members
  are built by the zero-argument constructor of \<^verbatim>\<open>Vec3\<close>, which sets every
  component to zero.
\<close>

theorem Ray_default_zero:
  "A Ray_default = \<lparr>x = 0, y = 0, z = 0\<rparr> \<and> B Ray_default = \<lparr>x = 0, y = 0, z = 0\<rparr> \<and>
   origin Ray_default = Vec3_xyz 0 0 0 \<and> direction Ray_default = Vec3_xyz 0 0 0"
  by (simp add: Ray_default_def Vec3_default_def origin_def direction_def Vec3_xyz_def)

text \<open>
  C10. For every vector \<open>v\<close>, \<^verbatim>\<open>dot(v, v)\<close> equals \<^verbatim>\<open>v.squared_length()\<close>:
  both are \<open>x\<cdot>x + y\<cdot>y + z\<cdot>z\<close>.
\<close>

theorem dot_self_squared_length:
  "dot v v = squared_length v"
  by (simp add: dot_def squared_length_def)

end
